theory Spec2Isabelle
  imports Main
begin

section \<open>Token validation (src/lib/tokens.ts)\<close>

text \<open>
  The module exports one asynchronous function, \<open>validateToken\<close>, and keeps one private
  helper, \<open>importJwkAndVerify\<close>. Both are embedded below, statement by statement.

  Conventions of the embedding:
  \<^item> a JavaScript string is the list of its UTF-8 bytes, so \<open>TextEncoder.encode\<close> and
    \<open>Buffer.from(s)\<close> are the identity on it;
  \<^item> a JSON number is an integer (fractional and non-finite numbers are outside the model);
  \<^item> the libraries and the engine throw Error objects, which have a class and a \<open>message\<close>
    string; the Key Store may throw any value: an Error object, \<open>null\<close> or \<open>undefined\<close>,
    or a value without a \<open>message\<close> property (a string, a number, a plain object);
  \<^item> an awaited promise settles, and is represented by its outcome, \<open>Inl\<close> for a
    rejection;
  \<^item> the libraries (jose, noble-ed25519, Buffer, JSON) and the Key Store are not part of the
    module: their behaviour is a parameter, the record \<open>env\<close>;
  \<^item> the clock read by \<open>new Date()\<close> is the parameter \<open>now\<close>, in milliseconds since the epoch;
  \<^item> console output and the awaited calls to collaborators are appended to a trace that is
    threaded through every function.
\<close>

subsection \<open>Values\<close>

datatype json =
    JNull
  | JBool bool
  | JNum int
  | JStr string
  | JArr "json list"
  | JObj "(string \<times> json) list"

text \<open>An object is the list of its own properties; reading a property is \<open>map_of\<close>.\<close>

type_synonym jsobject = "(string \<times> json) list"

datatype errclass = JWTExpired | TypeError | SyntaxError | Error

datatype error_object = ErrorObject errclass string

fun message :: "error_object \<Rightarrow> string" where
  "message (ErrorObject c m) = m"

fun instanceof_JWTExpired :: "error_object \<Rightarrow> bool" where
  "instanceof_JWTExpired (ErrorObject c m) = (c = JWTExpired)"

text \<open>
  What a \<open>catch\<close> clause can receive. JavaScript lets any value be thrown, and the
  handlers of the module read \<open>.message\<close> from what they catch: that read gives the
  message of an Error object, gives \<open>undefined\<close> on a value that has no such property,
  and itself raises a TypeError on \<open>null\<close> and \<open>undefined\<close>.
\<close>

datatype thrown =
    ThrownError error_object   \<comment> \<open>an Error object (or any object with a \<open>message\<close> string)\<close>
  | ThrownNullish              \<comment> \<open>\<open>null\<close> or \<open>undefined\<close>\<close>
  | ThrownOther                \<comment> \<open>any other value: its \<open>message\<close> is \<open>undefined\<close>\<close>

text \<open>
  What \<open>importJWK\<close> returns and \<open>jwtVerify\<close> accepts: a \<open>Uint8Array\<close>, or a key object
  given by the values of its own enumerable properties (only whether a value is a
  \<open>Uint8Array\<close>, and then its bytes, matters to this module).
\<close>

datatype propval = U8 string | OtherValue

datatype keylike = Uint8Array string | KeyObject "propval list"

text \<open>
  The Key Store (\<open>../storage/db\<close>) is not among the sources. The module uses one method
  of it, \<open>storage.keys.getKeyById(kid)\<close>, which answers with a record \<open>{ key: string }\<close>,
  the JSON text of a JWK, or with nothing.
\<close>

record key_record =
  key :: string

text \<open>\<open>JWTVerifyResult\<close> and the object \<open>validateToken\<close> resolves to.\<close>

record JWTVerifyResult =
  protectedHeader :: jsobject
  payload :: jsobject

record validation_result =
  verified :: bool
  decoded :: JWTVerifyResult
  expired :: bool
  error :: "string option"

text \<open>The places where the JavaScript engine or a helper raises on a value of the wrong kind.\<close>

datatype fault =
    AlgNotString        \<comment> \<open>line 31: \<open>decodedHeader.alg.toLowerCase()\<close>, alg not a string\<close>
  | JwkIsNull           \<comment> \<open>line 103: \<open>key.alg\<close> read on \<open>null\<close>\<close>
  | JwkAlgNotString     \<comment> \<open>line 103: \<open>key.alg?.toLowerCase()\<close>, alg neither nullish nor a string\<close>
  | SigUndefined        \<comment> \<open>line 107: \<open>Buffer.from(undefined, 'base64')\<close>\<close>
  | PubKeyUndefined     \<comment> \<open>line 110: \<open>ed.etc.bytesToHex(undefined)\<close>\<close>
  | MessageOfNullish    \<comment> \<open>line 95: \<open>.message\<close> read on \<open>null\<close> or \<open>undefined\<close>\<close>

datatype event =
    ConsoleLog string
  | GetKeyById json
  | ImportJWK json
  | JwtVerify string keylike
  | EdVerifyAsync string string string

type_synonym trace = "event list"

subsection \<open>Collaborators\<close>

record env =
  decodeProtectedHeader :: "string \<Rightarrow> error_object + jsobject"
  decodeJwt :: "string \<Rightarrow> error_object + jsobject"
  jwtVerify :: "string \<Rightarrow> keylike \<Rightarrow> error_object + unit"
  importJWK :: "json \<Rightarrow> error_object + keylike"
  getKeyById :: "json \<Rightarrow> thrown + key_record option"
  JSON_parse :: "string \<Rightarrow> error_object + json"
  Buffer_from_base64 :: "string \<Rightarrow> string"
  ed_verifyAsync :: "string \<Rightarrow> string \<Rightarrow> string \<Rightarrow> error_object + bool"
  ToNumber :: "json \<Rightarrow> int option"
  fault_error :: "fault \<Rightarrow> error_object"

subsection \<open>JavaScript primitives used by the module\<close>

text \<open>Truthiness of a value, as tested by \<open>if (v)\<close> and \<open>!v\<close>.\<close>

fun truthy :: "json \<Rightarrow> bool" where
  "truthy JNull = False"
| "truthy (JBool b) = b"
| "truthy (JNum n) = (n \<noteq> 0)"
| "truthy (JStr s) = (s \<noteq> [])"
| "truthy (JArr xs) = True"
| "truthy (JObj ps) = True"

text \<open>
  \<open>String.prototype.toLowerCase\<close> on the ASCII letters. No character outside ASCII
  lower-cases to an ASCII \<open>h\<close>, \<open>s\<close>, \<open>e\<close>, \<open>d\<close> or \<open>a\<close>, so the two tests of the module
  (\<open>startsWith('hs')\<close>, \<open>=== 'eddsa'\<close>) are decided by this function.
\<close>

definition lower_char :: "char \<Rightarrow> char" where
  "lower_char c =
     (case map_of (zip ''ABCDEFGHIJKLMNOPQRSTUVWXYZ'' ''abcdefghijklmnopqrstuvwxyz'') c of
        None \<Rightarrow> c
      | Some l \<Rightarrow> l)"

definition toLowerCase :: "string \<Rightarrow> string" where
  "toLowerCase s = map lower_char s"

definition startsWith :: "string \<Rightarrow> string \<Rightarrow> bool" where
  "startsWith s p = (take (length p) s = p)"

text \<open>\<open>jwt.split('.')\<close>: the segments between the dots; never the empty list.\<close>

fun js_split :: "string \<Rightarrow> string list" where
  "js_split [] = [[]]"
| "js_split (c # cs) =
     (if c = CHR ''.'' then [] # js_split cs
      else (case js_split cs of
              [] \<Rightarrow> [[c]]
            | seg # segs \<Rightarrow> (c # seg) # segs))"

text \<open>\<open>Buffer.toString('hex')\<close> and \<open>ed.etc.bytesToHex\<close>: two lower-case hex digits a byte.\<close>

definition hex_digit :: "nat \<Rightarrow> char" where
  "hex_digit n = ''0123456789abcdef'' ! n"

definition hex_byte :: "char \<Rightarrow> string" where
  "hex_byte c = (let n = (of_char c :: nat) in [hex_digit (n div 16), hex_digit (n mod 16)])"

definition toString_hex :: "string \<Rightarrow> string" where
  "toString_hex bs = concat (map hex_byte bs)"

text \<open>\<open>new TextEncoder().encode(secret)\<close>: an absent secret encodes to no bytes.\<close>

definition TextEncoder_encode :: "string option \<Rightarrow> string" where
  "TextEncoder_encode secret = (case secret of None \<Rightarrow> [] | Some s \<Rightarrow> s)"

text \<open>
  \<open>v * 1000\<close> for the value of the \<open>exp\<close> claim. Numbers, booleans and \<open>null\<close> convert as
  ECMAScript says; strings, arrays and objects convert by the engine's \<open>ToNumber\<close>, where
  \<open>None\<close> is \<open>NaN\<close>.
\<close>

fun times_1000 :: "env \<Rightarrow> json \<Rightarrow> int option" where
  "times_1000 E (JNum n) = Some (n * 1000)"
| "times_1000 E (JBool b) = Some (if b then 1000 else 0)"
| "times_1000 E JNull = Some 0"
| "times_1000 E v = map_option (\<lambda>n. n * 1000) (ToNumber E v)"

text \<open>
  \<open>new Date() > new Date(t)\<close>: a time value beyond 8.64e15 ms makes an invalid date, whose
  number is \<open>NaN\<close>, and every comparison with \<open>NaN\<close> is false.
\<close>

definition date_gt :: "int \<Rightarrow> int option \<Rightarrow> bool" where
  "date_gt now t =
     (case t of
        None \<Rightarrow> False
      | Some ms \<Rightarrow> \<bar>ms\<bar> \<le> 8640000000000000 \<and> now > ms)"

subsection \<open>The module\<close>

text \<open>
  Line 31: \<open>decodedHeader.alg\<close> as the receiver of \<open>toLowerCase()\<close>. Only a string has
  that method: for an absent \<open>alg\<close> and for any other value the call raises a TypeError.
\<close>

definition header_alg :: "jsobject \<Rightarrow> string option" where
  "header_alg decodedHeader =
     (case map_of decodedHeader ''alg'' of
        Some (JStr alg) \<Rightarrow> Some alg
      | _ \<Rightarrow> None)"

text \<open>Lines 25-28: the expiry flag.\<close>

definition compute_expired :: "env \<Rightarrow> int \<Rightarrow> jsobject \<Rightarrow> bool" where
  "compute_expired E now decodedPayload =
     (case map_of decodedPayload ''exp'' of
        None \<Rightarrow> False
      | Some v \<Rightarrow> if truthy v then date_gt now (times_1000 E v) else False)"

text \<open>Line 103: \<open>key.alg?.toLowerCase() === 'eddsa'\<close>.\<close>

fun jwk_alg_is_eddsa :: "env \<Rightarrow> json \<Rightarrow> error_object + bool" where
  "jwk_alg_is_eddsa E JNull = Inl (fault_error E JwkIsNull)"
| "jwk_alg_is_eddsa E (JObj ps) =
     (case map_of ps ''alg'' of
        None \<Rightarrow> Inr False
      | Some JNull \<Rightarrow> Inr False
      | Some (JStr a) \<Rightarrow> Inr (toLowerCase a = ''eddsa'')
      | Some _ \<Rightarrow> Inl (fault_error E JwkAlgNotString))"
| "jwk_alg_is_eddsa E _ = Inr False"

text \<open>Line 109: \<open>Object.values(keyLike).filter((v) => v instanceof Uint8Array)[0]\<close>.\<close>

fun Uint8Array_values :: "propval list \<Rightarrow> string list" where
  "Uint8Array_values [] = []"
| "Uint8Array_values (U8 bs # vs) = bs # Uint8Array_values vs"
| "Uint8Array_values (OtherValue # vs) = Uint8Array_values vs"

definition first_Uint8Array :: "keylike \<Rightarrow> string option" where
  "first_Uint8Array keyLike =
     (case keyLike of
        Uint8Array bs \<Rightarrow> None
      | KeyObject vs \<Rightarrow>
          (case Uint8Array_values vs of [] \<Rightarrow> None | bs # others \<Rightarrow> Some bs))"

text \<open>Lines 104-116: the EdDSA branch of \<open>importJwkAndVerify\<close>.\<close>

definition verify_eddsa ::
  "env \<Rightarrow> string \<Rightarrow> keylike \<Rightarrow> trace \<Rightarrow> (error_object + unit) \<times> trace" where
  "verify_eddsa E jwt keyLike \<sigma> =
     (case js_split jwt of
        header # payld # sig # rest \<Rightarrow>
          (let msg = toString_hex (header @ ''.'' @ payld);
               signature = toString_hex (Buffer_from_base64 E sig)
           in case first_Uint8Array keyLike of
                None \<Rightarrow> (Inl (fault_error E PubKeyUndefined), \<sigma>)
              | Some pubKeyBytes \<Rightarrow>
                  (let pubKey = toString_hex pubKeyBytes;
                       \<sigma>' = \<sigma> @ [EdVerifyAsync signature msg pubKey]
                   in case ed_verifyAsync E signature msg pubKey of
                        Inl err \<Rightarrow> (Inl err, \<sigma>')
                      | Inr isValid \<Rightarrow>
                          if \<not> isValid
                          then (Inl (ErrorObject Error ''eddsa token verification failed''), \<sigma>')
                          else (Inr (), \<sigma>')))
      | _ \<Rightarrow> (Inl (fault_error E SigUndefined), \<sigma>))"

text \<open>
  Lines 100-127. In the generic branch \<open>jwtVerify\<close> is an async function of jose: the call
  returns a promise and never throws, so the \<open>catch\<close> of lines 121-126 is not entered; the
  promise is returned without \<open>await\<close> and its outcome is the outcome of
  \<open>importJwkAndVerify\<close>.
\<close>

definition importJwkAndVerify ::
  "env \<Rightarrow> string \<Rightarrow> json \<Rightarrow> trace \<Rightarrow> (error_object + unit) \<times> trace" where
  "importJwkAndVerify E jwt jwk \<sigma> =
     (let \<sigma>1 = \<sigma> @ [ImportJWK jwk] in
      case importJWK E jwk of
        Inl err \<Rightarrow> (Inl err, \<sigma>1)
      | Inr keyLike \<Rightarrow>
          (case jwk_alg_is_eddsa E jwk of
             Inl err \<Rightarrow> (Inl err, \<sigma>1)
           | Inr True \<Rightarrow> verify_eddsa E jwt keyLike \<sigma>1
           | Inr False \<Rightarrow> (jwtVerify E jwt keyLike, \<sigma>1 @ [JwtVerify jwt keyLike])))"

text \<open>Lines 32-54: verification with the shared secret.\<close>

definition verify_symmetric ::
  "env \<Rightarrow> string \<Rightarrow> string option \<Rightarrow> JWTVerifyResult \<Rightarrow> bool \<Rightarrow> trace
     \<Rightarrow> (thrown + validation_result) \<times> trace" where
  "verify_symmetric E jwt secret decodedResponse expd \<sigma> =
     (let k = Uint8Array (TextEncoder_encode secret);
          \<sigma>' = \<sigma> @ [JwtVerify jwt k]
      in case jwtVerify E jwt k of
           Inr u \<Rightarrow>
             (Inr \<lparr>verified = True, decoded = decodedResponse, expired = expd, error = None\<rparr>, \<sigma>')
         | Inl err \<Rightarrow>
             if instanceof_JWTExpired err
             then (Inr \<lparr>verified = True, decoded = decodedResponse, expired = expd,
                        error = None\<rparr>, \<sigma>')
             else (Inr \<lparr>verified = False, decoded = decodedResponse, expired = expd,
                        error = Some (message err)\<rparr>, \<sigma>'))"

text \<open>Lines 57-61: the lookup, made only for a truthy \<open>kid\<close>.\<close>

definition lookup_key :: "env \<Rightarrow> jsobject \<Rightarrow> trace \<Rightarrow> (thrown + key_record option) \<times> trace" where
  "lookup_key E decodedHeader \<sigma> =
     (case map_of decodedHeader ''kid'' of
        None \<Rightarrow> (Inr None, \<sigma>)
      | Some kid \<Rightarrow>
          if truthy kid then (getKeyById E kid, \<sigma> @ [GetKeyById kid]) else (Inr None, \<sigma>))"

text \<open>Lines 57-89: verification with a key of the Key Store.\<close>

definition verify_asymmetric ::
  "env \<Rightarrow> string \<Rightarrow> jsobject \<Rightarrow> JWTVerifyResult \<Rightarrow> bool \<Rightarrow> trace
     \<Rightarrow> (thrown + validation_result) \<times> trace" where
  "verify_asymmetric E jwt decodedHeader decodedResponse expd \<sigma> =
     (case lookup_key E decodedHeader \<sigma> of
        (Inl err, \<sigma>1) \<Rightarrow> (Inl err, \<sigma>1)
      | (Inr None, \<sigma>1) \<Rightarrow>
          (Inr \<lparr>verified = False, decoded = decodedResponse, expired = expd, error = None\<rparr>,
           \<sigma>1 @ [ConsoleLog ''No key found''])
      | (Inr (Some k), \<sigma>1) \<Rightarrow>
          (case JSON_parse E (key k) of
             Inl err \<Rightarrow> (Inl (ThrownError err), \<sigma>1)
           | Inr jwk \<Rightarrow>
               (case importJwkAndVerify E jwt jwk \<sigma>1 of
                  (Inr u, \<sigma>2) \<Rightarrow>
                    (Inr \<lparr>verified = True, decoded = decodedResponse, expired = expd,
                          error = None\<rparr>, \<sigma>2)
                | (Inl err, \<sigma>2) \<Rightarrow>
                    (Inr \<lparr>verified = False, decoded = decodedResponse, expired = expd,
                          error = Some (message err)\<rparr>, \<sigma>2))))"

text \<open>Lines 17-89: the body of the outer \<open>try\<close>.\<close>

definition validateToken_try ::
  "env \<Rightarrow> int \<Rightarrow> string \<Rightarrow> string option \<Rightarrow> trace \<Rightarrow> (thrown + validation_result) \<times> trace" where
  "validateToken_try E now jwt secret \<sigma> =
     (case decodeProtectedHeader E jwt of
        Inl err \<Rightarrow> (Inl (ThrownError err), \<sigma>)
      | Inr decodedHeader \<Rightarrow>
          (case decodeJwt E jwt of
             Inl err \<Rightarrow> (Inl (ThrownError err), \<sigma>)
           | Inr decodedPayload \<Rightarrow>
               (let decodedResponse =
                      \<lparr>protectedHeader = decodedHeader, payload = decodedPayload\<rparr>;
                    expd = compute_expired E now decodedPayload
                in case header_alg decodedHeader of
                     None \<Rightarrow> (Inl (ThrownError (fault_error E AlgNotString)), \<sigma>)
                   | Some alg \<Rightarrow>
                       if startsWith (toLowerCase alg) ''hs''
                       then verify_symmetric E jwt secret decodedResponse expd \<sigma>
                       else verify_asymmetric E jwt decodedHeader decodedResponse expd \<sigma>)))"

text \<open>
  Lines 95, 52 and 87: \<open>(e as Error).message\<close>. The cast is erased at run time. At lines
  52 and 87 the value caught comes from jose, noble-ed25519, Buffer or the engine and is an
  Error object, so \<open>message\<close> is read directly there; at line 95 it can be what the Key
  Store threw.
\<close>

fun get_message :: "thrown \<Rightarrow> fault + string option" where
  "get_message (ThrownError e) = Inr (Some (message e))"
| "get_message ThrownOther = Inr None"
| "get_message ThrownNullish = Inl MessageOfNullish"

text \<open>
  Lines 10-98: the exported function, with the handler of lines 90-97. \<open>Inl\<close> is a
  rejection of the promise \<open>validateToken\<close> returns.
\<close>

definition validateToken ::
  "env \<Rightarrow> int \<Rightarrow> string \<Rightarrow> string option \<Rightarrow> trace
     \<Rightarrow> (error_object + validation_result) \<times> trace" where
  "validateToken E now jwt secret \<sigma> =
     (case validateToken_try E now jwt secret \<sigma> of
        (Inr r, \<sigma>') \<Rightarrow> (Inr r, \<sigma>')
      | (Inl e, \<sigma>') \<Rightarrow>
          (case get_message e of
             Inl f \<Rightarrow> (Inl (fault_error E f), \<sigma>')
           | Inr m \<Rightarrow>
               (Inr \<lparr>verified = False, decoded = \<lparr>protectedHeader = [], payload = []\<rparr>,
                     expired = False, error = m\<rparr>, \<sigma>')))"

subsection \<open>A stub environment for concrete runs\<close>

text \<open>
  Every collaborator answers with a fixed outcome, whatever its argument; the base64 decoder
  is the identity and \<open>ToNumber\<close> answers \<open>NaN\<close>.
\<close>

definition fixed_env ::
  "(error_object + jsobject) \<Rightarrow> (error_object + jsobject) \<Rightarrow> (error_object + unit)
     \<Rightarrow> (thrown + key_record option) \<Rightarrow> (error_object + json) \<Rightarrow> (error_object + keylike)
     \<Rightarrow> (error_object + bool) \<Rightarrow> env" where
  "fixed_env hdr pl ver stored parsed imported edok =
     \<lparr>decodeProtectedHeader = (\<lambda>jwt. hdr),
      decodeJwt = (\<lambda>jwt. pl),
      jwtVerify = (\<lambda>jwt k. ver),
      importJWK = (\<lambda>jwk. imported),
      getKeyById = (\<lambda>kid. stored),
      JSON_parse = (\<lambda>s. parsed),
      Buffer_from_base64 = (\<lambda>s. s),
      ed_verifyAsync = (\<lambda>s m k. edok),
      ToNumber = (\<lambda>v. None),
      fault_error = (\<lambda>f. ErrorObject TypeError ''wrong kind of value'')\<rparr>"

section \<open>Properties\<close>

lemmas module_defs =
  validateToken_def validateToken_try_def verify_asymmetric_def verify_symmetric_def
  lookup_key_def importJwkAndVerify_def verify_eddsa_def

lemmas primitive_defs =
  header_alg_def compute_expired_def date_gt_def first_Uint8Array_def toLowerCase_def
  lower_char_def startsWith_def toString_hex_def hex_byte_def hex_digit_def
  TextEncoder_encode_def

subsection \<open>Shared facts\<close>

lemma validateToken_handler:
  assumes "validateToken_try E now jwt secret \<sigma> = (Inl e, \<sigma>1)"
  shows "validateToken E now jwt secret \<sigma> =
     (case e of
        ThrownError eo \<Rightarrow>
          (Inr \<lparr>verified = False, decoded = \<lparr>protectedHeader = [], payload = []\<rparr>,
                expired = False, error = Some (message eo)\<rparr>, \<sigma>1)
      | ThrownOther \<Rightarrow>
          (Inr \<lparr>verified = False, decoded = \<lparr>protectedHeader = [], payload = []\<rparr>,
                expired = False, error = None\<rparr>, \<sigma>1)
      | ThrownNullish \<Rightarrow> (Inl (fault_error E MessageOfNullish), \<sigma>1))"
  using assms by (cases e) (simp_all add: validateToken_def)

lemma validateToken_handled:
  assumes "validateToken_try E now jwt secret \<sigma> = (Inl e, \<sigma>1)"
    and "validateToken E now jwt secret \<sigma> = (Inr r, \<sigma>')"
  shows "\<not> verified r \<and> decoded r = \<lparr>protectedHeader = [], payload = []\<rparr> \<and> \<not> expired r \<and>
         error r = (case e of ThrownError eo \<Rightarrow> Some (message eo) | _ \<Rightarrow> None) \<and>
         e \<noteq> ThrownNullish \<and> \<sigma>' = \<sigma>1"
  using validateToken_handler [OF assms(1)] assms(2) by (cases e) auto

lemma validateToken_body_returns:
  assumes "validateToken_try E now jwt secret \<sigma> = (Inr r, \<sigma>1)"
  shows "validateToken E now jwt secret \<sigma> = (Inr r, \<sigma>1)"
  using assms by (simp add: validateToken_def)

lemma validateToken_returns_iff:
  "(\<exists>r \<sigma>'. validateToken E now jwt secret \<sigma> = (Inr r, \<sigma>')) =
     (\<forall>\<sigma>1. validateToken_try E now jwt secret \<sigma> \<noteq> (Inl ThrownNullish, \<sigma>1))"
proof -
  obtain x \<sigma>1 where body: "validateToken_try E now jwt secret \<sigma> = (x, \<sigma>1)"
    by (cases "validateToken_try E now jwt secret \<sigma>")
  show ?thesis
  proof (cases x)
    case (Inr r)
    with body validateToken_body_returns [of E now jwt secret \<sigma> r \<sigma>1] show ?thesis by simp
  next
    case (Inl e)
    with body validateToken_handler [of E now jwt secret \<sigma> e \<sigma>1] show ?thesis
      by (cases e) simp_all
  qed
qed

lemma validateToken_try_decoded:
  assumes "decodeProtectedHeader E jwt = Inr h" and "decodeJwt E jwt = Inr p"
    and "header_alg h = Some alg"
  shows "validateToken_try E now jwt secret \<sigma> =
     (if startsWith (toLowerCase alg) ''hs''
      then verify_symmetric E jwt secret \<lparr>protectedHeader = h, payload = p\<rparr>
             (compute_expired E now p) \<sigma>
      else verify_asymmetric E jwt h \<lparr>protectedHeader = h, payload = p\<rparr>
             (compute_expired E now p) \<sigma>)"
  using assms by (simp add: validateToken_try_def)

lemma header_alg_nonempty: "header_alg h = Some alg \<Longrightarrow> h \<noteq> []"
  by (auto simp: header_alg_def)

lemma expired_cases:
  assumes "validateToken E now jwt secret \<sigma> = (Inr r, \<sigma>')"
  shows "\<not> expired r \<or> (\<exists>p. decodeJwt E jwt = Inr p \<and> expired r = compute_expired E now p)"
  using assms
  by (auto simp: module_defs Let_def
      split: sum.splits option.splits list.splits bool.splits prod.splits if_splits)

lemma map_of_without:
  "map_of (filter (\<lambda>kv. fst kv \<noteq> k) ps) k = None"
  by (induction ps) auto

lemma js_split_nonempty: "js_split s \<noteq> []"
  by (induction s) (auto split: list.splits)

lemma js_split_head:
  "js_split s = x # xs \<Longrightarrow>
     CHR ''.'' \<notin> set x \<and> (if xs = [] then s = x else \<exists>t. s = x @ ''.'' @ t \<and> js_split t = xs)"
proof (induction s arbitrary: x xs)
  case Nil
  then show ?case by simp
next
  case (Cons c cs)
  show ?case
  proof (cases "c = CHR ''.''")
    case True
    with Cons.prems js_split_nonempty [of cs] show ?thesis by auto
  next
    case False
    obtain y ys where y: "js_split cs = y # ys"
      using js_split_nonempty [of cs] by (cases "js_split cs") auto
    with Cons.prems False have x: "x = c # y" "xs = ys" by auto
    from Cons.IH [OF y] x False show ?thesis by auto
  qed
qed

lemma js_split_three:
  assumes "js_split jwt = a # b # c # rest"
  shows "\<exists>t. jwt = a @ ''.'' @ b @ ''.'' @ c @ t \<and>
             CHR ''.'' \<notin> set a \<and> CHR ''.'' \<notin> set b \<and> CHR ''.'' \<notin> set c"
proof -
  from js_split_head [OF assms] obtain t1 where
    1: "CHR ''.'' \<notin> set a" "jwt = a @ ''.'' @ t1" "js_split t1 = b # c # rest" by auto
  from js_split_head [OF 1(3)] obtain t2 where
    2: "CHR ''.'' \<notin> set b" "t1 = b @ ''.'' @ t2" "js_split t2 = c # rest" by auto
  from js_split_head [OF 2(3)] have
    3: "CHR ''.'' \<notin> set c" "if rest = [] then t2 = c else \<exists>t. t2 = c @ ''.'' @ t" by auto
  from 3(2) obtain t3 where "t2 = c @ t3" by (auto split: if_splits)
  with 1 2 3 show ?thesis by auto
qed

lemma importJwkAndVerify_generic:
  assumes "importJWK E jwk = Inr keyLike" and "jwk_alg_is_eddsa E jwk = Inr False"
  shows "importJwkAndVerify E jwt jwk \<sigma> =
           (jwtVerify E jwt keyLike, \<sigma> @ [ImportJWK jwk, JwtVerify jwt keyLike])"
  using assms by (simp add: importJwkAndVerify_def)

lemma importJwkAndVerify_eddsa:
  assumes "importJWK E jwk = Inr keyLike" and "jwk_alg_is_eddsa E jwk = Inr True"
  shows "importJwkAndVerify E jwt jwk \<sigma> = verify_eddsa E jwt keyLike (\<sigma> @ [ImportJWK jwk])"
  using assms by (simp add: importJwkAndVerify_def)

lemma verify_asymmetric_found:
  assumes "lookup_key E h \<sigma> = (Inr (Some k), \<sigma>1)" and "JSON_parse E (key k) = Inr jwk"
  shows "verify_asymmetric E jwt h d x \<sigma> =
           (case importJwkAndVerify E jwt jwk \<sigma>1 of
              (Inr u, \<sigma>2) \<Rightarrow>
                (Inr \<lparr>verified = True, decoded = d, expired = x, error = None\<rparr>, \<sigma>2)
            | (Inl err, \<sigma>2) \<Rightarrow>
                (Inr \<lparr>verified = False, decoded = d, expired = x,
                      error = Some (message err)\<rparr>, \<sigma>2))"
  using assms by (simp add: verify_asymmetric_def)

lemma validateToken_try_Inr:
  assumes "validateToken_try E now jwt secret \<sigma> = (Inr r, \<sigma>')"
  shows "\<exists>h p alg. decodeProtectedHeader E jwt = Inr h \<and> decodeJwt E jwt = Inr p \<and>
           header_alg h = Some alg \<and> decoded r = \<lparr>protectedHeader = h, payload = p\<rparr> \<and>
           expired r = compute_expired E now p"
  using assms
  by (auto simp: validateToken_try_def verify_asymmetric_def verify_symmetric_def Let_def
      split: sum.splits option.splits prod.splits if_splits)

lemma lookup_key_cases:
  "lookup_key E h \<sigma> = (x, \<sigma>1) \<Longrightarrow>
     (x = Inr None \<and> \<sigma>1 = \<sigma> \<and> (\<forall>kid. map_of h ''kid'' = Some kid \<longrightarrow> \<not> truthy kid)) \<or>
     (\<exists>kid. map_of h ''kid'' = Some kid \<and> truthy kid \<and> x = getKeyById E kid \<and>
            \<sigma>1 = \<sigma> @ [GetKeyById kid])"
  by (auto simp: lookup_key_def split: option.splits if_splits)

lemma validateToken_try_throws_iff:
  "(\<exists>e \<sigma>1. validateToken_try E now jwt secret \<sigma> = (Inl e, \<sigma>1)) =
     ((\<exists>e. decodeProtectedHeader E jwt = Inl e) \<or>
      (\<exists>e. decodeJwt E jwt = Inl e) \<or>
      (\<exists>h. decodeProtectedHeader E jwt = Inr h \<and> header_alg h = None) \<or>
      (\<exists>h alg kid. decodeProtectedHeader E jwt = Inr h \<and> header_alg h = Some alg \<and>
         \<not> startsWith (toLowerCase alg) ''hs'' \<and> map_of h ''kid'' = Some kid \<and> truthy kid \<and>
         ((\<exists>e. getKeyById E kid = Inl e) \<or>
          (\<exists>k e. getKeyById E kid = Inr (Some k) \<and> JSON_parse E (key k) = Inl e))))"
  by (auto simp: validateToken_try_def verify_asymmetric_def verify_symmetric_def lookup_key_def
      Let_def split: sum.splits option.splits prod.splits if_splits)

lemma verify_eddsa_trace:
  "\<exists>evs. snd (verify_eddsa E jwt keyLike \<sigma>) = \<sigma> @ evs \<and>
         (evs = [] \<or> (\<exists>s m pk. evs = [EdVerifyAsync s m pk]))"
  by (auto simp: verify_eddsa_def Let_def split: list.splits option.splits sum.splits)

lemma importJwkAndVerify_trace:
  "\<exists>evs. snd (importJwkAndVerify E jwt jwk \<sigma>) = \<sigma> @ evs"
proof (cases "importJWK E jwk")
  case (Inl e)
  then show ?thesis by (simp add: importJwkAndVerify_def)
next
  case (Inr keyLike)
  show ?thesis
  proof (cases "jwk_alg_is_eddsa E jwk")
    case (Inl e)
    with Inr show ?thesis by (simp add: importJwkAndVerify_def)
  next
    case b: (Inr b)
    show ?thesis
    proof (cases b)
      case True
      from verify_eddsa_trace [of E jwt keyLike "\<sigma> @ [ImportJWK jwk]"]
      obtain evs where "snd (verify_eddsa E jwt keyLike (\<sigma> @ [ImportJWK jwk])) =
           (\<sigma> @ [ImportJWK jwk]) @ evs" by blast
      with Inr b True show ?thesis by (simp add: importJwkAndVerify_def)
    next
      case False
      with Inr b show ?thesis by (simp add: importJwkAndVerify_def)
    qed
  qed
qed

lemma verify_asymmetric_trace:
  "snd (verify_asymmetric E jwt h d x \<sigma>) \<noteq> \<sigma> @ [JwtVerify a b]"
proof -
  obtain y \<sigma>1 where l: "lookup_key E h \<sigma> = (y, \<sigma>1)"
    by (cases "lookup_key E h \<sigma>")
  from lookup_key_cases [OF l] show ?thesis
  proof
    assume "y = Inr None \<and> \<sigma>1 = \<sigma> \<and> (\<forall>kid. map_of h ''kid'' = Some kid \<longrightarrow> \<not> truthy kid)"
    with l show ?thesis by (simp add: verify_asymmetric_def)
  next
    assume "\<exists>kid. map_of h ''kid'' = Some kid \<and> truthy kid \<and> y = getKeyById E kid \<and>
            \<sigma>1 = \<sigma> @ [GetKeyById kid]"
    then obtain kid where s1: "\<sigma>1 = \<sigma> @ [GetKeyById kid]" by blast
    show ?thesis
    proof (cases y)
      case (Inl e)
      with l s1 show ?thesis by (simp add: verify_asymmetric_def)
    next
      case (Inr ko)
      show ?thesis
      proof (cases ko)
        case None
        with l s1 Inr show ?thesis by (simp add: verify_asymmetric_def)
      next
        case (Some k)
        show ?thesis
        proof (cases "JSON_parse E (key k)")
          case (Inl e)
          with l s1 Inr Some show ?thesis by (simp add: verify_asymmetric_def)
        next
          case (Inr jwk)
          from importJwkAndVerify_trace [of E jwt jwk \<sigma>1] obtain evs where
            "snd (importJwkAndVerify E jwt jwk \<sigma>1) = \<sigma>1 @ evs" by blast
          with l s1 \<open>y = Inr ko\<close> Some Inr show ?thesis
            by (auto simp: verify_asymmetric_def split: prod.splits sum.splits)
        qed
      qed
    qed
  qed
qed

lemma verify_symmetric_trace:
  "snd (verify_symmetric E jwt secret d x \<sigma>) =
     \<sigma> @ [JwtVerify jwt (Uint8Array (TextEncoder_encode secret))]"
  by (simp add: verify_symmetric_def Let_def split: sum.splits)

lemma snd_validateToken:
  "snd (validateToken E now jwt secret \<sigma>) = snd (validateToken_try E now jwt secret \<sigma>)"
  by (simp add: validateToken_def split: prod.splits sum.splits)

lemma jwk_alg_is_eddsa_iff:
  "(jwk_alg_is_eddsa E jwk = Inr True) =
     (\<exists>ps a. jwk = JObj ps \<and> map_of ps ''alg'' = Some (JStr a) \<and> toLowerCase a = ''eddsa'')"
  by (cases jwk) (auto split: option.splits json.splits)


lemma validateToken_try_other_iff:
  "(\<exists>\<sigma>1. validateToken_try E now jwt secret \<sigma> = (Inl ThrownOther, \<sigma>1)) =
     (\<exists>h p alg kid. decodeProtectedHeader E jwt = Inr h \<and> decodeJwt E jwt = Inr p \<and>
        header_alg h = Some alg \<and> \<not> startsWith (toLowerCase alg) ''hs'' \<and>
        map_of h ''kid'' = Some kid \<and> truthy kid \<and> getKeyById E kid = Inl ThrownOther)"
  by (auto simp: validateToken_try_def verify_asymmetric_def verify_symmetric_def lookup_key_def
      Let_def split: sum.splits option.splits prod.splits if_splits)

subsection \<open>The outer error boundary\<close>




subsection \<open>Key resolution\<close>

text \<open>
  Claim C6. Take a token whose header and payload decode, whose \<open>alg\<close> does not begin with
  \<open>hs\<close> (case-insensitively), and that either has no \<open>kid\<close> or has one for which the
  Key Store answers with no key. Then \<open>validateToken\<close> returns \<open>verified = false\<close> with
  no \<open>error\<close> field and with the decoded header and payload in \<open>decoded\<close> (so not the
  empty pair), it does not throw, and the last thing it does is to write the line
  \<open>No key found\<close> to the console.
\<close>

theorem key_resolution_miss:
  assumes "decodeProtectedHeader E jwt = Inr h" and "decodeJwt E jwt = Inr p"
    and "header_alg h = Some alg" and "\<not> startsWith (toLowerCase alg) ''hs''"
    and "map_of h ''kid'' = None \<or>
         (\<exists>kid. map_of h ''kid'' = Some kid \<and> getKeyById E kid = Inr None)"
  shows "validateToken E now jwt secret \<sigma> =
           (Inr \<lparr>verified = False, decoded = \<lparr>protectedHeader = h, payload = p\<rparr>,
                 expired = compute_expired E now p, error = None\<rparr>,
            \<sigma> @ (case map_of h ''kid'' of
                   None \<Rightarrow> []
                 | Some kid \<Rightarrow> if truthy kid then [GetKeyById kid] else [])
              @ [ConsoleLog ''No key found''])
         \<and> h \<noteq> []"
proof -
  have "lookup_key E h \<sigma> =
          (Inr None, \<sigma> @ (case map_of h ''kid'' of
                   None \<Rightarrow> []
                 | Some kid \<Rightarrow> if truthy kid then [GetKeyById kid] else []))"
    using assms(5) by (auto simp: lookup_key_def)
  then show ?thesis
    using assms(1-4)
    by (simp add: validateToken_def validateToken_try_decoded verify_asymmetric_def
        header_alg_nonempty)
qed

theorem key_resolution_miss_witness:
  "validateToken
     (fixed_env (Inr [(''alg'', JStr ''RS256''), (''kid'', JStr ''k1'')]) (Inr [(''sub'', JStr ''u'')])
        (Inr ()) (Inr None) (Inr JNull) (Inr (Uint8Array [])) (Inr True))
     5000 ''h.p.s'' None []
   = (Inr \<lparr>verified = False,
           decoded = \<lparr>protectedHeader = [(''alg'', JStr ''RS256''), (''kid'', JStr ''k1'')],
                      payload = [(''sub'', JStr ''u'')]\<rparr>,
           expired = False, error = None\<rparr>,
      [GetKeyById (JStr ''k1''), ConsoleLog ''No key found''])"
proof -
  let ?h = "[(''alg'', JStr ''RS256''), (''kid'', JStr ''k1'')]"
  let ?p = "[(''sub'', JStr ''u'')]"
  let ?E = "fixed_env (Inr ?h) (Inr ?p)
        (Inr ()) (Inr None) (Inr JNull) (Inr (Uint8Array [])) (Inr True)"
  have 1: "decodeProtectedHeader ?E ''h.p.s'' = Inr ?h" by (simp add: fixed_env_def)
  have 2: "decodeJwt ?E ''h.p.s'' = Inr ?p" by (simp add: fixed_env_def)
  have 3: "header_alg ?h = Some ''RS256''" by (simp add: header_alg_def)
  have 4: "\<not> startsWith (toLowerCase ''RS256'') ''hs''" by (simp add: primitive_defs)
  have 5: "map_of ?h ''kid'' = None \<or>
         (\<exists>kid. map_of ?h ''kid'' = Some kid \<and> getKeyById ?E kid = Inr None)"
    by (simp add: fixed_env_def)
  from key_resolution_miss [OF 1 2 3 4 5, of 5000 None "[]"]
  show ?thesis by (simp add: compute_expired_def)
qed

subsection \<open>The expiry flag\<close>

text \<open>
  Claim C9. When the decoded payload has an \<open>exp\<close> claim that is falsy (the number 0, and
  also \<open>null\<close>, \<open>false\<close> and the empty string), every record \<open>validateToken\<close> returns
  has \<open>expired = false\<close>, and a record is returned unless \<open>null\<close> or \<open>undefined\<close> is
  thrown inside the outer \<open>try\<close>. The flag computed at lines 25-28 is the one computed for
  the same payload without \<open>exp\<close>; this although the epoch, time 0, lies in the past.
\<close>

theorem falsy_exp_not_expired:
  assumes "decodeJwt E jwt = Inr p" and "map_of p ''exp'' = Some v" and "\<not> truthy v"
  shows "(\<forall>r \<sigma>'. validateToken E now jwt secret \<sigma> = (Inr r, \<sigma>') \<longrightarrow> \<not> expired r) \<and>
         ((\<forall>\<sigma>1. validateToken_try E now jwt secret \<sigma> \<noteq> (Inl ThrownNullish, \<sigma>1)) \<longrightarrow>
            (\<exists>r \<sigma>'. validateToken E now jwt secret \<sigma> = (Inr r, \<sigma>') \<and> \<not> expired r)) \<and>
         compute_expired E now p = compute_expired E now (filter (\<lambda>kv. fst kv \<noteq> ''exp'') p)"
proof -
  have ce: "\<not> compute_expired E now p"
    using assms(2,3) by (simp add: compute_expired_def)
  have all: "\<not> expired r" if "validateToken E now jwt secret \<sigma> = (Inr r, \<sigma>')" for r \<sigma>'
    using expired_cases [OF that] assms(1) ce by auto
  have "\<not> compute_expired E now (filter (\<lambda>kv. fst kv \<noteq> ''exp'') p)"
    by (simp add: compute_expired_def map_of_without)
  with all ce validateToken_returns_iff [of E now jwt secret \<sigma>] show ?thesis by blast
qed

theorem falsy_exp_not_expired_witness:
  "validateToken
     (fixed_env (Inr [(''alg'', JStr ''HS256'')]) (Inr [(''exp'', JNum 0)])
        (Inr ()) (Inr None) (Inr JNull) (Inr (Uint8Array [])) (Inr True))
     5000 ''h.p.s'' (Some ''k'') []
   = (Inr \<lparr>verified = True,
           decoded = \<lparr>protectedHeader = [(''alg'', JStr ''HS256'')],
                      payload = [(''exp'', JNum 0)]\<rparr>,
           expired = False, error = None\<rparr>,
      [JwtVerify ''h.p.s'' (Uint8Array ''k'')])"
proof -
  let ?p = "[(''exp'', JNum 0)]"
  let ?h = "[(''alg'', JStr ''HS256'')]"
  let ?E = "fixed_env (Inr ?h) (Inr ?p)
        (Inr ()) (Inr None) (Inr JNull) (Inr (Uint8Array [])) (Inr True)"
  have 1: "decodeJwt ?E ''h.p.s'' = Inr ?p" by (simp add: fixed_env_def)
  have 2: "map_of ?p ''exp'' = Some (JNum 0)" by simp
  have 3: "\<not> truthy (JNum 0)" by simp
  obtain r where r: "validateToken ?E 5000 ''h.p.s'' (Some ''k'') []
                       = (Inr r, [JwtVerify ''h.p.s'' (Uint8Array ''k'')])"
    and rest: "verified r" "error r = None" "decoded r = \<lparr>protectedHeader = ?h, payload = ?p\<rparr>"
    by (simp add: fixed_env_def validateToken_def validateToken_try_def
        verify_symmetric_def primitive_defs)
  from falsy_exp_not_expired [OF 1 2 3, of 5000 "Some ''k''" "[]"] r
  have "\<not> expired r" by blast
  with rest have "r = \<lparr>verified = True, decoded = \<lparr>protectedHeader = ?h, payload = ?p\<rparr>,
           expired = False, error = None\<rparr>"
    by (cases r) simp
  with r show ?thesis by simp
qed

text \<open>
  The spec says that \<open>expired\<close> is true exactly when \<open>exp\<close> is present and the current
  time is later, for every token whose header and payload decode. First run below:
  \<open>exp\<close> is 0, the clock is far later, and \<open>expired\<close> is false. Second run: \<open>exp\<close> is
  1600000000 s, the clock is at 1700000000000 ms, header and payload decode, the Key Store
  lookup throws, and the outer handler returns \<open>expired = false\<close>.
\<close>

theorem expired_flag_counterexample:
  "validateToken
     (fixed_env (Inr [(''alg'', JStr ''HS256'')]) (Inr [(''exp'', JNum 0)])
        (Inr ()) (Inr None) (Inr JNull) (Inr (Uint8Array [])) (Inr True))
     1700000000000 ''h.p.s'' (Some ''k'') []
   = (Inr \<lparr>verified = True,
           decoded = \<lparr>protectedHeader = [(''alg'', JStr ''HS256'')],
                      payload = [(''exp'', JNum 0)]\<rparr>,
           expired = False, error = None\<rparr>,
      [JwtVerify ''h.p.s'' (Uint8Array ''k'')]) \<and>
   decodeProtectedHeader
     (fixed_env (Inr [(''alg'', JStr ''RS256''), (''kid'', JStr ''k1'')])
        (Inr [(''exp'', JNum 1600000000)])
        (Inr ()) (Inl (ThrownError (ErrorObject Error ''connection refused''))) (Inr JNull)
        (Inr (Uint8Array [])) (Inr True)) ''h.p.s''
   = Inr [(''alg'', JStr ''RS256''), (''kid'', JStr ''k1'')] \<and>
   decodeJwt
     (fixed_env (Inr [(''alg'', JStr ''RS256''), (''kid'', JStr ''k1'')])
        (Inr [(''exp'', JNum 1600000000)])
        (Inr ()) (Inl (ThrownError (ErrorObject Error ''connection refused''))) (Inr JNull)
        (Inr (Uint8Array [])) (Inr True)) ''h.p.s''
   = Inr [(''exp'', JNum 1600000000)] \<and>
   validateToken
     (fixed_env (Inr [(''alg'', JStr ''RS256''), (''kid'', JStr ''k1'')])
        (Inr [(''exp'', JNum 1600000000)])
        (Inr ()) (Inl (ThrownError (ErrorObject Error ''connection refused''))) (Inr JNull)
        (Inr (Uint8Array [])) (Inr True))
     1700000000000 ''h.p.s'' None []
   = (Inr \<lparr>verified = False, decoded = \<lparr>protectedHeader = [], payload = []\<rparr>,
           expired = False, error = Some ''connection refused''\<rparr>,
      [GetKeyById (JStr ''k1'')])"
  by (simp add: fixed_env_def module_defs primitive_defs)

text \<open>
  Claim C7, as the code has it. When the payload decodes, \<open>expired\<close> is the flag of lines
  25-28 if the call returns from inside the outer \<open>try\<close>, and false if an exception
  reaches the outer handler. The flag is false for an absent \<open>exp\<close> and for a falsy one;
  for a numeric \<open>exp\<close> it is true exactly when \<open>exp\<close> is not 0, \<open>exp * 1000\<close> is a valid
  time value (at most 8.64e15 ms in absolute value) and the current time in milliseconds
  is greater. It does not depend on \<open>verified\<close>.
\<close>

theorem expired_flag:
  assumes "decodeJwt E jwt = Inr p"
    and "validateToken E now jwt secret \<sigma> = (Inr r, \<sigma>')"
  shows
    "expired r =
       (compute_expired E now p \<and> (\<exists>r' \<sigma>1. validateToken_try E now jwt secret \<sigma> = (Inr r', \<sigma>1))) \<and>
     (map_of p ''exp'' = None \<longrightarrow> \<not> compute_expired E now p) \<and>
     (\<forall>v. map_of p ''exp'' = Some v \<and> \<not> truthy v \<longrightarrow> \<not> compute_expired E now p) \<and>
     (\<forall>n. map_of p ''exp'' = Some (JNum n) \<longrightarrow>
        compute_expired E now p =
          (n \<noteq> 0 \<and> \<bar>n * 1000\<bar> \<le> 8640000000000000 \<and> n * 1000 < now))"
proof -
  obtain x \<sigma>1 where body: "validateToken_try E now jwt secret \<sigma> = (x, \<sigma>1)"
    by (cases "validateToken_try E now jwt secret \<sigma>")
  have 1: "expired r =
       (compute_expired E now p \<and> (\<exists>r' \<sigma>1. validateToken_try E now jwt secret \<sigma> = (Inr r', \<sigma>1)))"
  proof (cases x)
    case (Inl e)
    with body assms validateToken_handled [of E now jwt secret \<sigma> e \<sigma>1 r \<sigma>']
    show ?thesis by auto
  next
    case (Inr r')
    with body assms have "r' = r" by (simp add: validateToken_def)
    with validateToken_try_Inr [of E now jwt secret \<sigma> r' \<sigma>1] body Inr assms(1)
    show ?thesis by auto
  qed
  have 2: "map_of p ''exp'' = None \<longrightarrow> \<not> compute_expired E now p"
    by (simp add: compute_expired_def)
  have 3: "\<forall>v. map_of p ''exp'' = Some v \<and> \<not> truthy v \<longrightarrow> \<not> compute_expired E now p"
    by (simp add: compute_expired_def)
  have 4: "\<forall>n. map_of p ''exp'' = Some (JNum n) \<longrightarrow>
        compute_expired E now p =
          (n \<noteq> 0 \<and> \<bar>n * 1000\<bar> \<le> 8640000000000000 \<and> n * 1000 < now)"
    by (simp add: compute_expired_def date_gt_def)
  from 1 2 3 4 show ?thesis by blast
qed

theorem expired_flag_witness:
  "validateToken
     (fixed_env (Inr [(''alg'', JStr ''RS256'')]) (Inr [(''exp'', JNum 1600000000)])
        (Inr ()) (Inr None) (Inr JNull) (Inr (Uint8Array [])) (Inr True))
     1700000000000 ''h.p.s'' None []
   = (Inr \<lparr>verified = False,
           decoded = \<lparr>protectedHeader = [(''alg'', JStr ''RS256'')],
                      payload = [(''exp'', JNum 1600000000)]\<rparr>,
           expired = True, error = None\<rparr>,
      [ConsoleLog ''No key found''])"
proof -
  let ?p = "[(''exp'', JNum 1600000000)]"
  let ?h = "[(''alg'', JStr ''RS256'')]"
  let ?E = "fixed_env (Inr ?h) (Inr ?p)
        (Inr ()) (Inr None) (Inr JNull) (Inr (Uint8Array [])) (Inr True)"
  have 1: "decodeJwt ?E ''h.p.s'' = Inr ?p" by (simp add: fixed_env_def)
  obtain r' where body: "validateToken_try ?E 1700000000000 ''h.p.s'' None []
                  = (Inr r', [ConsoleLog ''No key found''])"
    and rest: "\<not> verified r'" "error r' = None"
      "decoded r' = \<lparr>protectedHeader = ?h, payload = ?p\<rparr>"
    by (simp add: fixed_env_def validateToken_try_def verify_asymmetric_def lookup_key_def
        primitive_defs)
  then have r: "validateToken ?E 1700000000000 ''h.p.s'' None []
                  = (Inr r', [ConsoleLog ''No key found''])"
    by (simp add: validateToken_def)
  have m: "map_of ?p ''exp'' = Some (JNum 1600000000)" by simp
  from expired_flag [OF 1 r] body m have "expired r'" by simp
  with rest have "r' = \<lparr>verified = False, decoded = \<lparr>protectedHeader = ?h, payload = ?p\<rparr>,
           expired = True, error = None\<rparr>"
    by (cases r') simp
  with r show ?thesis by simp
qed

subsection \<open>Expiry reported by the verification library\<close>

text \<open>
  Claim C3. Expiry during verification is handled differently on the two paths. On the
  symmetric path (\<open>alg\<close> begins with \<open>hs\<close>), when \<open>jwtVerify\<close> rejects with an instance
  of \<open>JWTExpired\<close> the result still has \<open>verified = true\<close> and no \<open>error\<close>; expiry shows
  only in the \<open>expired\<close> field. On the generic asymmetric path, when \<open>jwtVerify\<close> rejects
  with an instance of \<open>JWTExpired\<close> the failure propagates: the result has
  \<open>verified = false\<close>, with the message of the rejection in \<open>error\<close>.
\<close>

theorem expiry_during_verification:
  assumes "decodeProtectedHeader E jwt = Inr h" and "decodeJwt E jwt = Inr p"
    and "header_alg h = Some alg"
  shows
    "(startsWith (toLowerCase alg) ''hs'' \<and>
      jwtVerify E jwt (Uint8Array (TextEncoder_encode secret)) = Inl err \<and>
      instanceof_JWTExpired err \<longrightarrow>
        validateToken E now jwt secret \<sigma> =
          (Inr \<lparr>verified = True, decoded = \<lparr>protectedHeader = h, payload = p\<rparr>,
                expired = compute_expired E now p, error = None\<rparr>,
           \<sigma> @ [JwtVerify jwt (Uint8Array (TextEncoder_encode secret))])) \<and>
     (\<not> startsWith (toLowerCase alg) ''hs'' \<and>
      lookup_key E h \<sigma> = (Inr (Some k), \<sigma>1) \<and> JSON_parse E (key k) = Inr jwk \<and>
      importJWK E jwk = Inr keyLike \<and> jwk_alg_is_eddsa E jwk = Inr False \<and>
      jwtVerify E jwt keyLike = Inl err \<and> instanceof_JWTExpired err \<longrightarrow>
        validateToken E now jwt secret \<sigma> =
          (Inr \<lparr>verified = False, decoded = \<lparr>protectedHeader = h, payload = p\<rparr>,
                expired = compute_expired E now p, error = Some (message err)\<rparr>,
           \<sigma>1 @ [ImportJWK jwk, JwtVerify jwt keyLike]))"
  using assms
  by (simp add: validateToken_def validateToken_try_decoded verify_symmetric_def
      verify_asymmetric_found importJwkAndVerify_generic)

theorem expiry_during_verification_witness:
  "validateToken
     (fixed_env (Inr [(''alg'', JStr ''HS256'')]) (Inr [(''exp'', JNum 1)])
        (Inl (ErrorObject JWTExpired ''exp claim timestamp check failed'')) (Inr None) (Inr JNull)
        (Inr (Uint8Array [])) (Inr True))
     5000 ''h.p.s'' (Some ''k'') []
   = (Inr \<lparr>verified = True,
           decoded = \<lparr>protectedHeader = [(''alg'', JStr ''HS256'')],
                      payload = [(''exp'', JNum 1)]\<rparr>,
           expired = True, error = None\<rparr>,
      [JwtVerify ''h.p.s'' (Uint8Array ''k'')]) \<and>
   validateToken
     (fixed_env (Inr [(''alg'', JStr ''RS256''), (''kid'', JStr ''k1'')]) (Inr [(''exp'', JNum 1)])
        (Inl (ErrorObject JWTExpired ''exp claim timestamp check failed''))
        (Inr (Some \<lparr>key = ''stored jwk''\<rparr>)) (Inr (JObj [(''kty'', JStr ''RSA'')]))
        (Inr (KeyObject [])) (Inr True))
     5000 ''h.p.s'' None []
   = (Inr \<lparr>verified = False,
           decoded = \<lparr>protectedHeader = [(''alg'', JStr ''RS256''), (''kid'', JStr ''k1'')],
                      payload = [(''exp'', JNum 1)]\<rparr>,
           expired = True, error = Some ''exp claim timestamp check failed''\<rparr>,
      [GetKeyById (JStr ''k1''), ImportJWK (JObj [(''kty'', JStr ''RSA'')]),
       JwtVerify ''h.p.s'' (KeyObject [])])"
proof -
  let ?err = "ErrorObject JWTExpired ''exp claim timestamp check failed''"
  let ?p = "[(''exp'', JNum 1)]"
  let ?h1 = "[(''alg'', JStr ''HS256'')]"
  let ?E1 = "fixed_env (Inr ?h1) (Inr ?p) (Inl ?err) (Inr None) (Inr JNull)
        (Inr (Uint8Array [])) (Inr True)"
  let ?h2 = "[(''alg'', JStr ''RS256''), (''kid'', JStr ''k1'')]"
  let ?jwk = "JObj [(''kty'', JStr ''RSA'')]"
  let ?E2 = "fixed_env (Inr ?h2) (Inr ?p) (Inl ?err)
        (Inr (Some \<lparr>key = ''stored jwk''\<rparr>)) (Inr ?jwk) (Inr (KeyObject [])) (Inr True)"
  have e: "compute_expired E 5000 ?p" for E
    by (simp add: compute_expired_def date_gt_def)
  have a1: "decodeProtectedHeader ?E1 ''h.p.s'' = Inr ?h1" "decodeJwt ?E1 ''h.p.s'' = Inr ?p"
    "header_alg ?h1 = Some ''HS256''"
    by (simp_all add: fixed_env_def header_alg_def)
  have b1: "startsWith (toLowerCase ''HS256'') ''hs'' \<and>
      jwtVerify ?E1 ''h.p.s'' (Uint8Array (TextEncoder_encode (Some ''k''))) = Inl ?err \<and>
      instanceof_JWTExpired ?err"
    by (simp add: fixed_env_def primitive_defs)
  have a2: "decodeProtectedHeader ?E2 ''h.p.s'' = Inr ?h2" "decodeJwt ?E2 ''h.p.s'' = Inr ?p"
    "header_alg ?h2 = Some ''RS256''"
    by (simp_all add: fixed_env_def header_alg_def)
  have b2: "\<not> startsWith (toLowerCase ''RS256'') ''hs'' \<and>
      lookup_key ?E2 ?h2 [] = (Inr (Some \<lparr>key = ''stored jwk''\<rparr>), [GetKeyById (JStr ''k1'')]) \<and>
      JSON_parse ?E2 (key \<lparr>key = ''stored jwk''\<rparr>) = Inr ?jwk \<and>
      importJWK ?E2 ?jwk = Inr (KeyObject []) \<and> jwk_alg_is_eddsa ?E2 ?jwk = Inr False \<and>
      jwtVerify ?E2 ''h.p.s'' (KeyObject []) = Inl ?err \<and> instanceof_JWTExpired ?err"
    by (simp add: fixed_env_def lookup_key_def primitive_defs)
  from expiry_during_verification [OF a1, of "Some ''k''" ?err 5000 "[]"] b1
  have 1: "validateToken ?E1 5000 ''h.p.s'' (Some ''k'') [] =
          (Inr \<lparr>verified = True, decoded = \<lparr>protectedHeader = ?h1, payload = ?p\<rparr>,
                expired = compute_expired ?E1 5000 ?p, error = None\<rparr>,
           [] @ [JwtVerify ''h.p.s'' (Uint8Array (TextEncoder_encode (Some ''k'')))])"
    by blast
  from expiry_during_verification [OF a2, of None ?err 5000 "[]" "\<lparr>key = ''stored jwk''\<rparr>"
      "[GetKeyById (JStr ''k1'')]" ?jwk "KeyObject []"] b2
  have 2: "validateToken ?E2 5000 ''h.p.s'' None [] =
          (Inr \<lparr>verified = False, decoded = \<lparr>protectedHeader = ?h2, payload = ?p\<rparr>,
                expired = compute_expired ?E2 5000 ?p, error = Some (message ?err)\<rparr>,
           [GetKeyById (JStr ''k1'')] @ [ImportJWK ?jwk, JwtVerify ''h.p.s'' (KeyObject [])])"
    by blast
  from 1 2 show ?thesis by (simp add: e TextEncoder_encode_def)
qed

subsection \<open>The EdDSA check\<close>

text \<open>
  Claim C4. On the EdDSA path (the stored key's \<open>alg\<close> is \<open>eddsa\<close>, the token has at least
  three segments and the imported key has a \<open>Uint8Array\<close> among its values) the raw check
  \<open>ed.verifyAsync\<close> is called once, with: as signature the hex encoding of the
  base64-decoded third segment; as message the hex encoding of the bytes of the text
  \<open>header-segment.payload-segment\<close>, the first two dot-free segments of the token; as public
  key the hex encoding of the bytes taken from the imported key. A check that answers
  \<open>false\<close> gives \<open>verified = false\<close> with the literal message
  \<open>eddsa token verification failed\<close>; a check that answers \<open>true\<close> gives
  \<open>verified = true\<close> and no \<open>error\<close>.
\<close>

theorem eddsa_signature_check:
  assumes "decodeProtectedHeader E jwt = Inr h" and "decodeJwt E jwt = Inr p"
    and "header_alg h = Some alg" and "\<not> startsWith (toLowerCase alg) ''hs''"
    and "lookup_key E h \<sigma> = (Inr (Some k), \<sigma>1)" and "JSON_parse E (key k) = Inr jwk"
    and "importJWK E jwk = Inr keyLike" and "jwk_alg_is_eddsa E jwk = Inr True"
    and "js_split jwt = header # payld # sig # rest"
    and "first_Uint8Array keyLike = Some pubKeyBytes"
    and "ed_verifyAsync E (toString_hex (Buffer_from_base64 E sig))
           (toString_hex (header @ ''.'' @ payld)) (toString_hex pubKeyBytes) = Inr isValid"
  shows
    "validateToken E now jwt secret \<sigma> =
       (Inr \<lparr>verified = isValid, decoded = \<lparr>protectedHeader = h, payload = p\<rparr>,
             expired = compute_expired E now p,
             error = (if isValid then None else Some ''eddsa token verification failed'')\<rparr>,
        \<sigma>1 @ [ImportJWK jwk,
              EdVerifyAsync (toString_hex (Buffer_from_base64 E sig))
                (toString_hex (header @ ''.'' @ payld)) (toString_hex pubKeyBytes)])
     \<and> (\<exists>t. jwt = header @ ''.'' @ payld @ ''.'' @ sig @ t \<and>
              CHR ''.'' \<notin> set header \<and> CHR ''.'' \<notin> set payld \<and> CHR ''.'' \<notin> set sig)"
proof -
  have "verify_eddsa E jwt keyLike (\<sigma>1 @ [ImportJWK jwk]) =
          (if isValid then Inr () else Inl (ErrorObject Error ''eddsa token verification failed''),
           \<sigma>1 @ [ImportJWK jwk,
              EdVerifyAsync (toString_hex (Buffer_from_base64 E sig))
                (toString_hex (header @ ''.'' @ payld)) (toString_hex pubKeyBytes)])"
    using assms(9-11) by (simp add: verify_eddsa_def Let_def)
  then have "validateToken E now jwt secret \<sigma> =
       (Inr \<lparr>verified = isValid, decoded = \<lparr>protectedHeader = h, payload = p\<rparr>,
             expired = compute_expired E now p,
             error = (if isValid then None else Some ''eddsa token verification failed'')\<rparr>,
        \<sigma>1 @ [ImportJWK jwk,
              EdVerifyAsync (toString_hex (Buffer_from_base64 E sig))
                (toString_hex (header @ ''.'' @ payld)) (toString_hex pubKeyBytes)])"
    using assms(1-8)
    by (simp add: validateToken_def validateToken_try_decoded verify_asymmetric_found
        importJwkAndVerify_eddsa)
  with js_split_three [OF assms(9)] show ?thesis by blast
qed

theorem eddsa_signature_check_witness:
  "validateToken
     (fixed_env (Inr [(''alg'', JStr ''EdDSA''), (''kid'', JStr ''k1'')]) (Inr [(''sub'', JStr ''u'')])
        (Inr ()) (Inr (Some \<lparr>key = ''stored jwk''\<rparr>)) (Inr (JObj [(''alg'', JStr ''EdDSA'')]))
        (Inr (KeyObject [OtherValue, U8 ''ab''])) (Inr False))
     5000 ''h.p.s'' None []
   = (Inr \<lparr>verified = False,
           decoded = \<lparr>protectedHeader = [(''alg'', JStr ''EdDSA''), (''kid'', JStr ''k1'')],
                      payload = [(''sub'', JStr ''u'')]\<rparr>,
           expired = False, error = Some ''eddsa token verification failed''\<rparr>,
      [GetKeyById (JStr ''k1''), ImportJWK (JObj [(''alg'', JStr ''EdDSA'')]),
       EdVerifyAsync ''73'' ''682e70'' ''6162''])"
proof -
  let ?h = "[(''alg'', JStr ''EdDSA''), (''kid'', JStr ''k1'')]"
  let ?p = "[(''sub'', JStr ''u'')]"
  let ?jwk = "JObj [(''alg'', JStr ''EdDSA'')]"
  let ?kl = "KeyObject [OtherValue, U8 ''ab'']"
  let ?E = "fixed_env (Inr ?h) (Inr ?p) (Inr ()) (Inr (Some \<lparr>key = ''stored jwk''\<rparr>))
        (Inr ?jwk) (Inr ?kl) (Inr False)"
  have a: "decodeProtectedHeader ?E ''h.p.s'' = Inr ?h" "decodeJwt ?E ''h.p.s'' = Inr ?p"
    "header_alg ?h = Some ''EdDSA''" "\<not> startsWith (toLowerCase ''EdDSA'') ''hs''"
    "lookup_key ?E ?h [] = (Inr (Some \<lparr>key = ''stored jwk''\<rparr>), [GetKeyById (JStr ''k1'')])"
    "JSON_parse ?E (key \<lparr>key = ''stored jwk''\<rparr>) = Inr ?jwk"
    "importJWK ?E ?jwk = Inr ?kl" "jwk_alg_is_eddsa ?E ?jwk = Inr True"
    "js_split ''h.p.s'' = ''h'' # ''p'' # ''s'' # []"
    "first_Uint8Array ?kl = Some ''ab''"
    "ed_verifyAsync ?E (toString_hex (Buffer_from_base64 ?E ''s''))
           (toString_hex (''h'' @ ''.'' @ ''p'')) (toString_hex ''ab'') = Inr False"
    by (simp_all add: fixed_env_def lookup_key_def primitive_defs)
  have hex: "toString_hex (Buffer_from_base64 ?E ''s'') = ''73''"
    "toString_hex ''h.p'' = ''682e70''" "toString_hex ''ab'' = ''6162''"
    by (simp_all add: fixed_env_def primitive_defs)
  from eddsa_signature_check [OF a, of 5000 None]
  show ?thesis by (simp add: hex compute_expired_def)
qed

subsection \<open>The error field\<close>

text \<open>
  The spec's taxonomy has \<open>error\<close> absent only on success and on a key-resolution miss.
  In the run below the Key Store lookup throws a value that is not an Error object (a
  string, say). The outer handler reads its \<open>message\<close>, which is \<open>undefined\<close>, and
  returns \<open>verified = false\<close> with \<open>error\<close> absent, though no key-resolution miss
  occurred and \<open>No key found\<close> was not written.
\<close>

theorem error_field_counterexample:
  "validateToken
     (fixed_env (Inr [(''alg'', JStr ''RS256''), (''kid'', JStr ''k1'')]) (Inr [(''sub'', JStr ''u'')])
        (Inr ()) (Inl ThrownOther) (Inr JNull) (Inr (Uint8Array [])) (Inr True))
     5000 ''h.p.s'' None []
   = (Inr \<lparr>verified = False, decoded = \<lparr>protectedHeader = [], payload = []\<rparr>,
           expired = False, error = None\<rparr>,
      [GetKeyById (JStr ''k1'')])"
  by (simp add: fixed_env_def module_defs primitive_defs)

text \<open>
  Claim C10, as the code has it. In the record a call returns, \<open>error\<close> is absent exactly
  when \<open>verified = true\<close>, or the call wrote \<open>No key found\<close> (the key-resolution miss),
  or the Key Store lookup threw a value without a \<open>message\<close> property. Every other
  outcome has \<open>verified = false\<close> and carries the message of the exception that caused
  it: an Error object that reaches the outer handler; a rejection of \<open>jwtVerify\<close> on the
  symmetric path that is not an expiry; a rejection of \<open>importJwkAndVerify\<close> (EdDSA
  branch included); and in particular any rejection of \<open>jwtVerify\<close> on the generic
  asymmetric path, whose promise is returned without \<open>await\<close> from inside the inner
  \<open>try\<close> and so rejects in the caller, at line 82.
\<close>

theorem error_field_absent_iff:
  assumes "validateToken E now jwt secret \<sigma> = (Inr r, \<sigma> @ evs)"
  shows
    "(error r = None) =
       (verified r \<or> ConsoleLog ''No key found'' \<in> set evs \<or>
        (\<exists>h p alg kid. decodeProtectedHeader E jwt = Inr h \<and> decodeJwt E jwt = Inr p \<and>
           header_alg h = Some alg \<and> \<not> startsWith (toLowerCase alg) ''hs'' \<and>
           map_of h ''kid'' = Some kid \<and> truthy kid \<and> getKeyById E kid = Inl ThrownOther)) \<and>
     (\<forall>e \<sigma>1. validateToken_try E now jwt secret \<sigma> = (Inl (ThrownError e), \<sigma>1) \<longrightarrow>
        \<not> verified r \<and> error r = Some (message e)) \<and>
     (\<forall>h p alg e. decodeProtectedHeader E jwt = Inr h \<and> decodeJwt E jwt = Inr p \<and>
        header_alg h = Some alg \<and> startsWith (toLowerCase alg) ''hs'' \<and>
        jwtVerify E jwt (Uint8Array (TextEncoder_encode secret)) = Inl e \<and>
        \<not> instanceof_JWTExpired e \<longrightarrow>
        \<not> verified r \<and> error r = Some (message e)) \<and>
     (\<forall>h p alg k \<sigma>1 jwk e \<sigma>2. decodeProtectedHeader E jwt = Inr h \<and> decodeJwt E jwt = Inr p \<and>
        header_alg h = Some alg \<and> \<not> startsWith (toLowerCase alg) ''hs'' \<and>
        lookup_key E h \<sigma> = (Inr (Some k), \<sigma>1) \<and> JSON_parse E (key k) = Inr jwk \<and>
        importJwkAndVerify E jwt jwk \<sigma>1 = (Inl e, \<sigma>2) \<longrightarrow>
        \<not> verified r \<and> error r = Some (message e)) \<and>
     (\<forall>h p alg k \<sigma>1 jwk keyLike e. decodeProtectedHeader E jwt = Inr h \<and>
        decodeJwt E jwt = Inr p \<and>
        header_alg h = Some alg \<and> \<not> startsWith (toLowerCase alg) ''hs'' \<and>
        lookup_key E h \<sigma> = (Inr (Some k), \<sigma>1) \<and> JSON_parse E (key k) = Inr jwk \<and>
        importJWK E jwk = Inr keyLike \<and> jwk_alg_is_eddsa E jwk = Inr False \<and>
        jwtVerify E jwt keyLike = Inl e \<longrightarrow>
        \<not> verified r \<and> error r = Some (message e))"
proof -
  obtain x \<sigma>1 where body: "validateToken_try E now jwt secret \<sigma> = (x, \<sigma>1)"
    by (cases "validateToken_try E now jwt secret \<sigma>")
  have other: "(\<exists>\<sigma>1. validateToken_try E now jwt secret \<sigma> = (Inl ThrownOther, \<sigma>1)) =
     (\<exists>h p alg kid. decodeProtectedHeader E jwt = Inr h \<and> decodeJwt E jwt = Inr p \<and>
        header_alg h = Some alg \<and> \<not> startsWith (toLowerCase alg) ''hs'' \<and>
        map_of h ''kid'' = Some kid \<and> truthy kid \<and> getKeyById E kid = Inl ThrownOther)"
    by (rule validateToken_try_other_iff)
  have iff0: "(error r = None) =
       (verified r \<or> ConsoleLog ''No key found'' \<in> set evs \<or>
        (\<exists>\<sigma>1. validateToken_try E now jwt secret \<sigma> = (Inl ThrownOther, \<sigma>1)))"
  proof (cases x)
    case (Inl e)
    have tr: "ConsoleLog ''No key found'' \<notin> set evs"
      using body Inl validateToken_handled [OF _ assms, of e \<sigma>1]
      by (auto simp: validateToken_try_def verify_asymmetric_def verify_symmetric_def
          lookup_key_def Let_def split: sum.splits option.splits prod.splits if_splits)
    from body Inl validateToken_handled [OF _ assms, of e \<sigma>1] tr show ?thesis
      by (cases e) auto
  next
    case (Inr r')
    with body assms have eq: "r' = r" "\<sigma>1 = \<sigma> @ evs" by (simp_all add: validateToken_def)
    from body Inr eq show ?thesis
      by (auto simp: validateToken_try_def verify_asymmetric_def verify_symmetric_def
          lookup_key_def importJwkAndVerify_def verify_eddsa_def Let_def
          split: sum.splits option.splits list.splits bool.splits prod.splits if_splits)
  qed
  have outer: "\<forall>e \<sigma>1. validateToken_try E now jwt secret \<sigma> = (Inl (ThrownError e), \<sigma>1) \<longrightarrow>
        \<not> verified r \<and> error r = Some (message e)"
    using validateToken_handled [OF _ assms] by fastforce
  have sym: "\<forall>h p alg e. decodeProtectedHeader E jwt = Inr h \<and> decodeJwt E jwt = Inr p \<and>
        header_alg h = Some alg \<and> startsWith (toLowerCase alg) ''hs'' \<and>
        jwtVerify E jwt (Uint8Array (TextEncoder_encode secret)) = Inl e \<and>
        \<not> instanceof_JWTExpired e \<longrightarrow>
        \<not> verified r \<and> error r = Some (message e)"
    using assms
    by (auto simp: validateToken_def validateToken_try_decoded verify_symmetric_def)
  have asym: "\<forall>h p alg k \<sigma>1 jwk e \<sigma>2. decodeProtectedHeader E jwt = Inr h \<and>
        decodeJwt E jwt = Inr p \<and>
        header_alg h = Some alg \<and> \<not> startsWith (toLowerCase alg) ''hs'' \<and>
        lookup_key E h \<sigma> = (Inr (Some k), \<sigma>1) \<and> JSON_parse E (key k) = Inr jwk \<and>
        importJwkAndVerify E jwt jwk \<sigma>1 = (Inl e, \<sigma>2) \<longrightarrow>
        \<not> verified r \<and> error r = Some (message e)"
    using assms
    by (auto simp: validateToken_def validateToken_try_decoded verify_asymmetric_found)
  have gen: "\<forall>h p alg k \<sigma>1 jwk keyLike e. decodeProtectedHeader E jwt = Inr h \<and>
        decodeJwt E jwt = Inr p \<and>
        header_alg h = Some alg \<and> \<not> startsWith (toLowerCase alg) ''hs'' \<and>
        lookup_key E h \<sigma> = (Inr (Some k), \<sigma>1) \<and> JSON_parse E (key k) = Inr jwk \<and>
        importJWK E jwk = Inr keyLike \<and> jwk_alg_is_eddsa E jwk = Inr False \<and>
        jwtVerify E jwt keyLike = Inl e \<longrightarrow>
        \<not> verified r \<and> error r = Some (message e)"
    using assms
    by (auto simp: validateToken_def validateToken_try_decoded verify_asymmetric_found
        importJwkAndVerify_generic)
  from iff0 other have iff: "(error r = None) =
       (verified r \<or> ConsoleLog ''No key found'' \<in> set evs \<or>
        (\<exists>h p alg kid. decodeProtectedHeader E jwt = Inr h \<and> decodeJwt E jwt = Inr p \<and>
           header_alg h = Some alg \<and> \<not> startsWith (toLowerCase alg) ''hs'' \<and>
           map_of h ''kid'' = Some kid \<and> truthy kid \<and> getKeyById E kid = Inl ThrownOther))"
    by simp
  from iff outer sym asym gen show ?thesis by blast
qed

theorem error_field_absent_iff_witness:
  "validateToken
     (fixed_env (Inr [(''alg'', JStr ''RS256''), (''kid'', JStr ''k1'')]) (Inr [(''sub'', JStr ''u'')])
        (Inl (ErrorObject Error ''signature verification failed''))
        (Inr (Some \<lparr>key = ''stored jwk''\<rparr>)) (Inr (JObj [(''kty'', JStr ''RSA'')]))
        (Inr (KeyObject [])) (Inr True))
     5000 ''h.p.s'' None []
   = (Inr \<lparr>verified = False,
           decoded = \<lparr>protectedHeader = [(''alg'', JStr ''RS256''), (''kid'', JStr ''k1'')],
                      payload = [(''sub'', JStr ''u'')]\<rparr>,
           expired = False, error = Some ''signature verification failed''\<rparr>,
      [GetKeyById (JStr ''k1''), ImportJWK (JObj [(''kty'', JStr ''RSA'')]),
       JwtVerify ''h.p.s'' (KeyObject [])])"
proof -
  let ?err = "ErrorObject Error ''signature verification failed''"
  let ?h = "[(''alg'', JStr ''RS256''), (''kid'', JStr ''k1'')]"
  let ?p = "[(''sub'', JStr ''u'')]"
  let ?jwk = "JObj [(''kty'', JStr ''RSA'')]"
  let ?E = "fixed_env (Inr ?h) (Inr ?p) (Inl ?err)
        (Inr (Some \<lparr>key = ''stored jwk''\<rparr>)) (Inr ?jwk) (Inr (KeyObject [])) (Inr True)"
  let ?evs = "[GetKeyById (JStr ''k1''), ImportJWK ?jwk, JwtVerify ''h.p.s'' (KeyObject [])]"
  obtain r where r: "validateToken ?E 5000 ''h.p.s'' None [] = (Inr r, [] @ ?evs)"
    and d: "decoded r = \<lparr>protectedHeader = ?h, payload = ?p\<rparr>" "\<not> expired r"
    by (simp add: fixed_env_def module_defs primitive_defs)
  have path: "decodeProtectedHeader ?E ''h.p.s'' = Inr ?h \<and>
        decodeJwt ?E ''h.p.s'' = Inr ?p \<and>
        header_alg ?h = Some ''RS256'' \<and> \<not> startsWith (toLowerCase ''RS256'') ''hs'' \<and>
        lookup_key ?E ?h [] = (Inr (Some \<lparr>key = ''stored jwk''\<rparr>), [GetKeyById (JStr ''k1'')]) \<and>
        JSON_parse ?E (key \<lparr>key = ''stored jwk''\<rparr>) = Inr ?jwk \<and>
        importJWK ?E ?jwk = Inr (KeyObject []) \<and> jwk_alg_is_eddsa ?E ?jwk = Inr False \<and>
        jwtVerify ?E ''h.p.s'' (KeyObject []) = Inl ?err"
    by (simp add: fixed_env_def lookup_key_def primitive_defs)
  from error_field_absent_iff [OF r] path
  have "\<not> verified r \<and> error r = Some (message ?err)" by blast
  with d have "r = \<lparr>verified = False, decoded = \<lparr>protectedHeader = ?h, payload = ?p\<rparr>,
           expired = False, error = Some ''signature verification failed''\<rparr>"
    by (cases r) simp
  with r show ?thesis by simp
qed

subsection \<open>When \<open>decoded\<close> is empty\<close>

text \<open>
  The spec says that \<open>decoded\<close> is empty only when decoding the header or the payload
  throws, and that a failure to parse the stored key leaves it populated. In the run below
  the header and the payload decode, the Key Store returns a record whose \<open>key\<close> is not
  JSON, \<open>JSON.parse\<close> (line 73, outside the inner \<open>try\<close>) throws, and the outer handler
  returns the empty \<open>decoded\<close>.
\<close>

theorem decoded_empty_counterexample:
  "decodeProtectedHeader
     (fixed_env (Inr [(''alg'', JStr ''RS256''), (''kid'', JStr ''k1'')]) (Inr [(''sub'', JStr ''u'')])
        (Inr ()) (Inr (Some \<lparr>key = ''not json''\<rparr>))
        (Inl (ErrorObject SyntaxError ''Unexpected token o in JSON at position 1''))
        (Inr (KeyObject [])) (Inr True)) ''h.p.s''
   = Inr [(''alg'', JStr ''RS256''), (''kid'', JStr ''k1'')] \<and>
   decodeJwt
     (fixed_env (Inr [(''alg'', JStr ''RS256''), (''kid'', JStr ''k1'')]) (Inr [(''sub'', JStr ''u'')])
        (Inr ()) (Inr (Some \<lparr>key = ''not json''\<rparr>))
        (Inl (ErrorObject SyntaxError ''Unexpected token o in JSON at position 1''))
        (Inr (KeyObject [])) (Inr True)) ''h.p.s''
   = Inr [(''sub'', JStr ''u'')] \<and>
   validateToken
     (fixed_env (Inr [(''alg'', JStr ''RS256''), (''kid'', JStr ''k1'')]) (Inr [(''sub'', JStr ''u'')])
        (Inr ()) (Inr (Some \<lparr>key = ''not json''\<rparr>))
        (Inl (ErrorObject SyntaxError ''Unexpected token o in JSON at position 1''))
        (Inr (KeyObject [])) (Inr True))
     5000 ''h.p.s'' None []
   = (Inr \<lparr>verified = False, decoded = \<lparr>protectedHeader = [], payload = []\<rparr>,
           expired = False, error = Some ''Unexpected token o in JSON at position 1''\<rparr>,
      [GetKeyById (JStr ''k1'')])"
  by (simp add: fixed_env_def module_defs primitive_defs)

text \<open>
  Claim C2, as the code has it. In a record that \<open>validateToken\<close> returns,
  \<open>decoded\<close> is empty exactly when an exception reached the outer handler, and an
  exception reaches it exactly when: decoding the header throws; or decoding the
  payload throws; or the header has no string \<open>alg\<close>; or, on the asymmetric path with a
  truthy \<open>kid\<close>, the Key Store lookup throws or \<open>JSON.parse\<close> of the stored key throws.
  In every other outcome (key-resolution miss, failure to import the key, signature
  failure on either path) \<open>decoded\<close> holds the decoded header and payload.
\<close>

theorem decoded_empty_iff:
  assumes "validateToken E now jwt secret \<sigma> = (Inr r, \<sigma>')"
  shows
    "(decoded r = \<lparr>protectedHeader = [], payload = []\<rparr>) =
       (\<exists>e \<sigma>1. validateToken_try E now jwt secret \<sigma> = (Inl e, \<sigma>1)) \<and>
     (\<exists>e \<sigma>1. validateToken_try E now jwt secret \<sigma> = (Inl e, \<sigma>1)) =
       ((\<exists>e. decodeProtectedHeader E jwt = Inl e) \<or>
        (\<exists>e. decodeJwt E jwt = Inl e) \<or>
        (\<exists>h. decodeProtectedHeader E jwt = Inr h \<and> header_alg h = None) \<or>
        (\<exists>h alg kid. decodeProtectedHeader E jwt = Inr h \<and> header_alg h = Some alg \<and>
           \<not> startsWith (toLowerCase alg) ''hs'' \<and> map_of h ''kid'' = Some kid \<and> truthy kid \<and>
           ((\<exists>e. getKeyById E kid = Inl e) \<or>
            (\<exists>k e. getKeyById E kid = Inr (Some k) \<and> JSON_parse E (key k) = Inl e)))) \<and>
     (\<forall>h p. decodeProtectedHeader E jwt = Inr h \<and> decodeJwt E jwt = Inr p \<and>
        decoded r \<noteq> \<lparr>protectedHeader = [], payload = []\<rparr> \<longrightarrow>
        decoded r = \<lparr>protectedHeader = h, payload = p\<rparr>)"
proof -
  obtain x \<sigma>1 where body: "validateToken_try E now jwt secret \<sigma> = (x, \<sigma>1)"
    by (cases "validateToken_try E now jwt secret \<sigma>")
  have 1: "(decoded r = \<lparr>protectedHeader = [], payload = []\<rparr>) =
       (\<exists>e \<sigma>1. validateToken_try E now jwt secret \<sigma> = (Inl e, \<sigma>1))"
  proof (cases x)
    case (Inl e)
    with body assms validateToken_handled [of E now jwt secret \<sigma> e \<sigma>1 r \<sigma>']
    show ?thesis by auto
  next
    case (Inr r')
    with body assms have "r' = r" by (simp add: validateToken_def)
    with validateToken_try_Inr [of E now jwt secret \<sigma> r' \<sigma>1] body Inr
    show ?thesis by (auto dest: header_alg_nonempty)
  qed
  have 3: "\<forall>h p. decodeProtectedHeader E jwt = Inr h \<and> decodeJwt E jwt = Inr p \<and>
        decoded r \<noteq> \<lparr>protectedHeader = [], payload = []\<rparr> \<longrightarrow>
        decoded r = \<lparr>protectedHeader = h, payload = p\<rparr>"
  proof (cases x)
    case (Inl e)
    with body assms validateToken_handled [of E now jwt secret \<sigma> e \<sigma>1 r \<sigma>']
    show ?thesis by auto
  next
    case (Inr r')
    with body assms have "r' = r" by (simp add: validateToken_def)
    with validateToken_try_Inr [of E now jwt secret \<sigma> r' \<sigma>1] body Inr
    show ?thesis by auto
  qed
  from 1 3 validateToken_try_throws_iff [of E now jwt secret \<sigma>] show ?thesis by blast
qed

theorem decoded_empty_iff_witness:
  "validateToken_try
     (fixed_env (Inr [(''typ'', JStr ''JWT'')]) (Inr [(''sub'', JStr ''u'')])
        (Inr ()) (Inr None) (Inr JNull) (Inr (KeyObject [])) (Inr True))
     5000 ''h.p.s'' None []
   = (Inl (ThrownError (ErrorObject TypeError ''wrong kind of value'')), []) \<and>
   validateToken
     (fixed_env (Inr [(''typ'', JStr ''JWT'')]) (Inr [(''sub'', JStr ''u'')])
        (Inr ()) (Inr None) (Inr JNull) (Inr (KeyObject [])) (Inr True))
     5000 ''h.p.s'' None []
   = (Inr \<lparr>verified = False, decoded = \<lparr>protectedHeader = [], payload = []\<rparr>,
           expired = False, error = Some ''wrong kind of value''\<rparr>, [])"
proof -
  let ?E = "fixed_env (Inr [(''typ'', JStr ''JWT'')]) (Inr [(''sub'', JStr ''u'')])
        (Inr ()) (Inr None) (Inr JNull) (Inr (KeyObject [])) (Inr True)"
  have body: "validateToken_try ?E 5000 ''h.p.s'' None []
                = (Inl (ThrownError (ErrorObject TypeError ''wrong kind of value'')), [])"
    by (simp add: fixed_env_def validateToken_try_def header_alg_def)
  obtain r where r: "validateToken ?E 5000 ''h.p.s'' None [] = (Inr r, [])"
    and rest: "\<not> verified r" "\<not> expired r" "error r = Some ''wrong kind of value''"
    by (simp add: validateToken_def body)
  from decoded_empty_iff [OF r] body
  have "decoded r = \<lparr>protectedHeader = [], payload = []\<rparr>" by blast
  with rest have "r = \<lparr>verified = False, decoded = \<lparr>protectedHeader = [], payload = []\<rparr>,
           expired = False, error = Some ''wrong kind of value''\<rparr>"
    by (cases r) simp
  with r body show ?thesis by simp
qed

subsection \<open>Algorithm dispatch\<close>

text \<open>
  The spec says that the choice between the EdDSA special case and the generic routine is
  made on the header's declared algorithm. Line 103 tests the \<open>alg\<close> of the stored JWK
  instead. First run below: the header declares \<open>RS256\<close>, the stored key declares
  \<open>EdDSA\<close>, and the raw EdDSA check is what runs (\<open>jwtVerify\<close>, which would reject, is not
  called). Second run: the header declares \<open>EdDSA\<close>, the stored key has no \<open>alg\<close>, and
  the generic routine runs (the raw check, which would accept, is not called).
\<close>

theorem algorithm_dispatch_counterexample:
  "validateToken
     (fixed_env (Inr [(''alg'', JStr ''RS256''), (''kid'', JStr ''k1'')]) (Inr [(''sub'', JStr ''u'')])
        (Inl (ErrorObject Error ''signature verification failed''))
        (Inr (Some \<lparr>key = ''stored jwk''\<rparr>)) (Inr (JObj [(''alg'', JStr ''EdDSA'')]))
        (Inr (KeyObject [U8 ''ab''])) (Inr True))
     5000 ''h.p.s'' None []
   = (Inr \<lparr>verified = True,
           decoded = \<lparr>protectedHeader = [(''alg'', JStr ''RS256''), (''kid'', JStr ''k1'')],
                      payload = [(''sub'', JStr ''u'')]\<rparr>,
           expired = False, error = None\<rparr>,
      [GetKeyById (JStr ''k1''), ImportJWK (JObj [(''alg'', JStr ''EdDSA'')]),
       EdVerifyAsync ''73'' ''682e70'' ''6162'']) \<and>
   validateToken
     (fixed_env (Inr [(''alg'', JStr ''EdDSA''), (''kid'', JStr ''k1'')]) (Inr [(''sub'', JStr ''u'')])
        (Inl (ErrorObject Error ''signature verification failed''))
        (Inr (Some \<lparr>key = ''stored jwk''\<rparr>)) (Inr (JObj [(''kty'', JStr ''OKP'')]))
        (Inr (KeyObject [U8 ''ab''])) (Inr True))
     5000 ''h.p.s'' None []
   = (Inr \<lparr>verified = False,
           decoded = \<lparr>protectedHeader = [(''alg'', JStr ''EdDSA''), (''kid'', JStr ''k1'')],
                      payload = [(''sub'', JStr ''u'')]\<rparr>,
           expired = False, error = Some ''signature verification failed''\<rparr>,
      [GetKeyById (JStr ''k1''), ImportJWK (JObj [(''kty'', JStr ''OKP'')]),
       JwtVerify ''h.p.s'' (KeyObject [U8 ''ab''])])"
  by (simp add: fixed_env_def module_defs primitive_defs)

text \<open>
  Claim C5, as the code has it. The symmetric path is taken (the only call is \<open>jwtVerify\<close>
  with the bytes of the secret) exactly when the header's \<open>alg\<close>, lower-cased, begins with
  \<open>hs\<close>. Otherwise, once a key is found, parsed and imported, the choice between the EdDSA
  special case and the generic routine is made on the \<open>alg\<close> of the stored JWK: the raw
  check runs, and \<open>jwtVerify\<close> does not, when that \<open>alg\<close> is a string that lower-cases to
  \<open>eddsa\<close>; \<open>jwtVerify\<close> with the imported key runs when the test of line 103 is false.
\<close>

theorem algorithm_dispatch:
  assumes "decodeProtectedHeader E jwt = Inr h" and "decodeJwt E jwt = Inr p"
    and "header_alg h = Some alg"
  shows
    "startsWith (toLowerCase alg) ''hs'' =
       (snd (validateToken E now jwt secret \<sigma>) =
          \<sigma> @ [JwtVerify jwt (Uint8Array (TextEncoder_encode secret))]) \<and>
     (\<forall>k \<sigma>1 jwk keyLike.
        \<not> startsWith (toLowerCase alg) ''hs'' \<and> lookup_key E h \<sigma> = (Inr (Some k), \<sigma>1) \<and>
        JSON_parse E (key k) = Inr jwk \<and> importJWK E jwk = Inr keyLike \<longrightarrow>
          (jwk_alg_is_eddsa E jwk = Inr True \<longrightarrow>
             (\<exists>evs. snd (validateToken E now jwt secret \<sigma>) = \<sigma>1 @ ImportJWK jwk # evs \<and>
                    (evs = [] \<or> (\<exists>s m pk. evs = [EdVerifyAsync s m pk])))) \<and>
          (jwk_alg_is_eddsa E jwk = Inr False \<longrightarrow>
             snd (validateToken E now jwt secret \<sigma>) =
               \<sigma>1 @ [ImportJWK jwk, JwtVerify jwt keyLike])) \<and>
     (\<forall>jwk. (jwk_alg_is_eddsa E jwk = Inr True) =
        (\<exists>ps a. jwk = JObj ps \<and> map_of ps ''alg'' = Some (JStr a) \<and> toLowerCase a = ''eddsa''))"
proof -
  have 1: "startsWith (toLowerCase alg) ''hs'' =
       (snd (validateToken E now jwt secret \<sigma>) =
          \<sigma> @ [JwtVerify jwt (Uint8Array (TextEncoder_encode secret))])"
    using assms verify_asymmetric_trace [of E jwt h _ _ \<sigma>]
    by (simp add: snd_validateToken validateToken_try_decoded verify_symmetric_trace)
  have 2: "snd (validateToken E now jwt secret \<sigma>) = \<sigma>1 @ [ImportJWK jwk, JwtVerify jwt keyLike]"
    if "\<not> startsWith (toLowerCase alg) ''hs''" "lookup_key E h \<sigma> = (Inr (Some k), \<sigma>1)"
      "JSON_parse E (key k) = Inr jwk" "importJWK E jwk = Inr keyLike"
      "jwk_alg_is_eddsa E jwk = Inr False" for k \<sigma>1 jwk keyLike
    using assms that
    by (simp add: snd_validateToken validateToken_try_decoded verify_asymmetric_found
        importJwkAndVerify_generic split: sum.splits)
  have 3: "\<exists>evs. snd (validateToken E now jwt secret \<sigma>) = \<sigma>1 @ ImportJWK jwk # evs \<and>
                    (evs = [] \<or> (\<exists>s m pk. evs = [EdVerifyAsync s m pk]))"
    if "\<not> startsWith (toLowerCase alg) ''hs''" "lookup_key E h \<sigma> = (Inr (Some k), \<sigma>1)"
      "JSON_parse E (key k) = Inr jwk" "importJWK E jwk = Inr keyLike"
      "jwk_alg_is_eddsa E jwk = Inr True" for k \<sigma>1 jwk keyLike
  proof -
    have "snd (validateToken E now jwt secret \<sigma>) =
            snd (verify_eddsa E jwt keyLike (\<sigma>1 @ [ImportJWK jwk]))"
      using assms that
      by (simp add: snd_validateToken validateToken_try_decoded verify_asymmetric_found
          importJwkAndVerify_eddsa split: prod.splits sum.splits)
    with verify_eddsa_trace [of E jwt keyLike "\<sigma>1 @ [ImportJWK jwk]"] show ?thesis
      by auto
  qed
  from 1 2 3 jwk_alg_is_eddsa_iff [of E] show ?thesis by blast
qed

theorem algorithm_dispatch_witness:
  "validateToken
     (fixed_env (Inr [(''alg'', JStr ''Hs256'')]) (Inr [(''sub'', JStr ''u'')])
        (Inr ()) (Inr None) (Inr JNull) (Inr (Uint8Array [])) (Inr True))
     5000 ''h.p.s'' (Some ''k'') []
   = (Inr \<lparr>verified = True,
           decoded = \<lparr>protectedHeader = [(''alg'', JStr ''Hs256'')],
                      payload = [(''sub'', JStr ''u'')]\<rparr>,
           expired = False, error = None\<rparr>,
      [JwtVerify ''h.p.s'' (Uint8Array ''k'')])"
proof -
  let ?h = "[(''alg'', JStr ''Hs256'')]"
  let ?p = "[(''sub'', JStr ''u'')]"
  let ?E = "fixed_env (Inr ?h) (Inr ?p)
        (Inr ()) (Inr None) (Inr JNull) (Inr (Uint8Array [])) (Inr True)"
  have a: "decodeProtectedHeader ?E ''h.p.s'' = Inr ?h" "decodeJwt ?E ''h.p.s'' = Inr ?p"
    "header_alg ?h = Some ''Hs256''"
    by (simp_all add: fixed_env_def header_alg_def)
  have hs: "startsWith (toLowerCase ''Hs256'') ''hs''"
    by (simp add: primitive_defs)
  from algorithm_dispatch [OF a, of 5000 "Some ''k''" "[]"] hs
  have tr: "snd (validateToken ?E 5000 ''h.p.s'' (Some ''k'') []) =
          [] @ [JwtVerify ''h.p.s'' (Uint8Array (TextEncoder_encode (Some ''k'')))]"
    by blast
  have "fst (validateToken ?E 5000 ''h.p.s'' (Some ''k'') []) =
          Inr \<lparr>verified = True, decoded = \<lparr>protectedHeader = ?h, payload = ?p\<rparr>,
           expired = False, error = None\<rparr>"
    by (simp add: fixed_env_def validateToken_def validateToken_try_def verify_symmetric_def
        primitive_defs)
  with tr show ?thesis
    by (cases "validateToken ?E 5000 ''h.p.s'' (Some ''k'') []")
      (simp add: TextEncoder_encode_def)
qed

end
